theory Spec2Isabelle
  imports Main "HOL-Library.Multiset"
begin

section \<open>Data model of the AwoX mesh coordinator\<close>

text \<open>
  The coordinator class \<open>AwoxMesh\<close> of \<open>awox_mesh.py\<close> is embedded with explicit state
  passing. Everything outside the class (the Bluetooth link, the scanner, the clock, the
  status reports a link delivers) is read from a \<open>world\<close>: a record of functions indexed by
  a tick counter that the model advances at every external interaction, so that each
  external call may answer differently from the previous one. Subscriber callbacks, link
  calls and completion callbacks are appended to a trace of events.
\<close>

text \<open>
  What the model takes from its surroundings:
  \<^item> the clock \<open>dt_util.now()\<close> is read at the current tick, so two reads with no external
    interaction between them give the same time;
  \<^item> the status reports of the link reach \<open>mesh_status_callback\<close> while a dispatch is
    awaited and during the \<open>asyncio.sleep(.5)\<close> pauses of the health check;
  \<^item> a caller that waits for its command sees the worker thread take the queue in the
    meantime; whether a bounded wait ran out is the world's answer;
  \<^item> \<open>disconnect_exceeds\<close> says that \<open>device.disconnect()\<close> takes more than the ten
    seconds that \<open>_disconnect_current_device\<close> allows it; where nothing bounds the call
    (the connect routine) it ends as \<open>disconnect_result\<close> says;
  \<^item> subscriber callbacks, completion callbacks and \<open>async_update_listeners\<close> return
    without raising; they appear as events only;
  \<^item> \<open>last_update_success\<close> and the liveness of the worker thread are fields of the
    state: the first is kept by the base class \<open>DataUpdateCoordinator\<close>, the second is
    \<open>Thread.is_alive()\<close>.
\<close>

type_synonym timestamp = int

text \<open>A status dictionary: \<open>{'state': None}\<close>, or a report of the link with an optional
  \<open>'mesh_id'\<close> key and an uninterpreted payload.\<close>

datatype status = StateNone | MeshStatus "int option" nat

text \<open>One value of \<open>self._devices\<close>. The key \<open>'rssi'\<close> is absent until a scan sets it.\<close>

record device_info =
  mac :: "string option"
  name :: string
  callback :: nat
  last_update :: "timestamp option"
  rssi :: "int option"

text \<open>\<open>self._devices\<close>: a Python dict, kept in insertion order with unique keys.\<close>

type_synonym registry = "(int \<times> device_info) list"

text \<open>An \<open>AwoxMeshLight\<close> object, made from an address and a mesh id.\<close>

datatype link = Link string int

datatype params = Kwargs "(string \<times> int) list" | Args "int list"

text \<open>A queue item. \<open>cb\<close> identifies the closure \<open>command_executed\<close> stored under
  \<open>'callback'\<close>; None stands for a dict without that key.\<close>

record command =
  c_command :: string
  c_params :: params
  cb :: "nat option"
  allow_to_fail :: bool

datatype event =
    Callback nat status
  | LinkConnect link
  | LinkDisconnect link "link option"
  | LinkDispatch link string params
  | SetStatusCallback link
  | UpdateListeners
  | CommandExecuted nat

datatype error = UpdateFailed string | TimeoutError | LinkError | AttributeError | KeyError

datatype connect_outcome = ConnTrue | ConnFalse | ConnRaises
datatype call_outcome = Returned | Raised
datatype dispatch_outcome = Result | NoResult | DispatchRaises
datatype scan_outcome = ScanRaises | Scanned "(string \<times> int option) list"

record world =
  now_at :: "nat \<Rightarrow> timestamp"
  connect_result :: "nat \<Rightarrow> link \<Rightarrow> connect_outcome"
  disconnect_result :: "nat \<Rightarrow> link \<Rightarrow> call_outcome"
  disconnect_exceeds :: "nat \<Rightarrow> link \<Rightarrow> bool"
  link_is_connected :: "nat \<Rightarrow> link \<Rightarrow> bool"
  dispatch_result :: "nat \<Rightarrow> link \<Rightarrow> dispatch_outcome"
  reports :: "nat \<Rightarrow> status list"
  scan_result :: "nat \<Rightarrow> scan_outcome"
  wait_times_out :: "nat \<Rightarrow> bool"

record mesh =
  devices :: registry
  connected_bluetooth_device :: "link option"
  last_rssi_check :: "timestamp option"
  last_connection :: "timestamp option"
  connected_device :: "string option"
  queue :: "command list"
  shutdown :: bool
  command_tread_alive :: bool
  last_update_success :: bool
  closures :: nat
  tick :: nat
  trace :: "event list"

definition log :: "event \<Rightarrow> mesh \<Rightarrow> mesh" where
  "log e s = s\<lparr>trace := trace s @ [e]\<rparr>"

definition advance :: "mesh \<Rightarrow> mesh" where
  "advance s = s\<lparr>tick := Suc (tick s)\<rparr>"

definition now :: "world \<Rightarrow> mesh \<Rightarrow> timestamp" where
  "now w s = now_at w (tick s)"

section \<open>The registry\<close>

text \<open>\<open>d[k] = v\<close> on a Python dict: an existing key keeps its position, a new key is
  appended.\<close>

fun dict_set :: "int \<Rightarrow> device_info \<Rightarrow> registry \<Rightarrow> registry" where
  "dict_set k v [] = [(k, v)]"
| "dict_set k v ((k', v') # ds) = (if k' = k then (k, v) # ds else (k', v') # dict_set k v ds)"

definition register_device :: "mesh \<Rightarrow> int \<Rightarrow> string option \<Rightarrow> string \<Rightarrow> nat \<Rightarrow> mesh" where
  "register_device s mesh_id mac_addr nm callback_func =
     s\<lparr>devices := dict_set mesh_id
          \<lparr>mac = mac_addr, name = nm, callback = callback_func, last_update = None, rssi = None\<rparr>
          (devices s)\<rparr>"

definition is_connected :: "world \<Rightarrow> mesh \<Rightarrow> bool" where
  "is_connected w s =
     (case connected_bluetooth_device s of
        None \<Rightarrow> False
      | Some device \<Rightarrow> link_is_connected w (tick s) device)"

definition async_update_mesh_state :: "world \<Rightarrow> mesh \<Rightarrow> mesh" where
  "async_update_mesh_state w s =
     log UpdateListeners (if \<not> is_connected w s then s\<lparr>connected_device := None\<rparr> else s)"

section \<open>RSSI scan\<close>

text \<open>\<open>str.upper()\<close> on the ASCII letters an address is written with.\<close>

definition upper_char :: "char \<Rightarrow> char" where
  "upper_char c =
     (case map_of (zip ''abcdefghijklmnopqrstuvwxyz'' ''ABCDEFGHIJKLMNOPQRSTUVWXYZ'') c of
        Some u \<Rightarrow> u
      | None \<Rightarrow> c)"

definition upper :: "string \<Rightarrow> string" where
  "upper m = map upper_char m"

text \<open>The three branches of the scan loop for one address.\<close>

definition rank :: "(string \<times> int option) list \<Rightarrow> string \<Rightarrow> int" where
  "rank found m =
     (case map_of found (upper m) of
        Some (Some r) \<Rightarrow> r
      | Some None \<Rightarrow> - 99999
      | None \<Rightarrow> - 999999)"

text \<open>The loop over \<open>self._devices.items()\<close>; \<open>None.upper()\<close> raises and leaves the
  entries already visited updated.\<close>

fun rssi_loop :: "(string \<times> int option) list \<Rightarrow> registry \<Rightarrow> error option \<times> registry" where
  "rssi_loop found [] = (None, [])"
| "rssi_loop found ((mesh_id, d) # rest) =
     (case mac d of
        None \<Rightarrow> (Some AttributeError, (mesh_id, d) # rest)
      | Some m \<Rightarrow>
          (case rssi_loop found rest of
             (e, rest') \<Rightarrow> (e, (mesh_id, d\<lparr>rssi := Some (rank found m)\<rparr>) # rest')))"

text \<open>\<open>sorted(items, key=lambda t: t[1]['rssi'], reverse=True)\<close>: a stable sort, descending;
  a missing \<open>'rssi'\<close> key raises.\<close>

fun insert_desc :: "int \<times> int \<times> device_info \<Rightarrow> (int \<times> int \<times> device_info) list
    \<Rightarrow> (int \<times> int \<times> device_info) list" where
  "insert_desc x [] = [x]"
| "insert_desc x (y # ys) = (if fst y \<le> fst x then x # y # ys else y # insert_desc x ys)"

fun keyed :: "registry \<Rightarrow> (int \<times> int \<times> device_info) list option" where
  "keyed [] = Some []"
| "keyed ((mesh_id, d) # rest) =
     (case rssi d of
        None \<Rightarrow> None
      | Some r \<Rightarrow> (case keyed rest of None \<Rightarrow> None | Some ks \<Rightarrow> Some ((r, mesh_id, d) # ks)))"

definition sorted_by_rssi :: "registry \<Rightarrow> registry option" where
  "sorted_by_rssi ds =
     (case keyed ds of
        None \<Rightarrow> None
      | Some ks \<Rightarrow> Some (map snd (foldr insert_desc ks [])))"

definition async_get_devices_rssi :: "world \<Rightarrow> mesh \<Rightarrow> error option \<times> mesh" where
  "async_get_devices_rssi w s =
     (let s0 = advance s in
      case scan_result w (tick s) of
        ScanRaises \<Rightarrow> (Some LinkError, s0)
      | Scanned found \<Rightarrow>
          (case rssi_loop found (devices s0) of
             (Some e, ds) \<Rightarrow> (Some e, s0\<lparr>devices := ds\<rparr>)
           | (None, ds) \<Rightarrow>
               (let s1 = s0\<lparr>devices := ds\<rparr>;
                    s2 = async_update_mesh_state w (s1\<lparr>last_rssi_check := Some (now w s1)\<rparr>)
                in case sorted_by_rssi (devices s2) of
                     None \<Rightarrow> (Some KeyError, s2)
                   | Some ds' \<Rightarrow> (None, s2\<lparr>devices := ds'\<rparr>))))"

section \<open>The link and its status reports\<close>

definition link_connect :: "world \<Rightarrow> mesh \<Rightarrow> link \<Rightarrow> connect_outcome \<times> mesh" where
  "link_connect w s device = (connect_result w (tick s) device, advance (log (LinkConnect device) s))"

text \<open>The event of a disconnect call records the reference the coordinator owns at the
  moment of the call.\<close>

definition link_disconnect :: "world \<Rightarrow> mesh \<Rightarrow> link \<Rightarrow> call_outcome \<times> mesh" where
  "link_disconnect w s device =
     (disconnect_result w (tick s) device,
      advance (log (LinkDisconnect device (connected_bluetooth_device s)) s))"

definition mesh_status_callback :: "world \<Rightarrow> mesh \<Rightarrow> status \<Rightarrow> mesh" where
  "mesh_status_callback w s st =
     (case st of
        StateNone \<Rightarrow> s
      | MeshStatus None p \<Rightarrow> s
      | MeshStatus (Some mesh_id) p \<Rightarrow>
          (case map_of (devices s) mesh_id of
             None \<Rightarrow> s
           | Some d \<Rightarrow>
               (log (Callback (callback d) st) s)
                 \<lparr>devices := dict_set mesh_id (d\<lparr>last_update := Some (now w s)\<rparr>) (devices s)\<rparr>))"

text \<open>The reports the link delivers while the caller is suspended at the current tick.\<close>

definition deliver_reports :: "world \<Rightarrow> mesh \<Rightarrow> mesh" where
  "deliver_reports w s = foldl (mesh_status_callback w) s (reports w (tick s))"

definition sleep :: "world \<Rightarrow> mesh \<Rightarrow> mesh" where
  "sleep w s = advance (deliver_reports w s)"

definition link_dispatch :: "world \<Rightarrow> mesh \<Rightarrow> link \<Rightarrow> command \<Rightarrow> dispatch_outcome \<times> mesh" where
  "link_dispatch w s device c =
     (dispatch_result w (tick s) device,
      advance (deliver_reports w (log (LinkDispatch device (c_command c) (c_params c)) s)))"

section \<open>Connecting and disconnecting\<close>

text \<open>
  \<open>_disconnect_current_device\<close>. The flag \<open>bounded\<close> says that the caller awaits the
  routine inside a \<open>timeout(10)\<close> of its own, as the forced reconnect of the health check
  does. An exception of \<open>device.disconnect()\<close> is logged and swallowed. When the call
  overruns its ten seconds and nothing bounds the routine, the routine's own bound raises
  \<open>TimeoutError\<close> at the call, which is swallowed as well. When the caller's bound is
  there, it was armed first and expires first: it cancels the routine at the call, the
  cancellation is no \<open>Exception\<close> and passes the handler, the rest of the routine is not
  run, and the caller's \<open>async with\<close> raises \<open>TimeoutError\<close>.
\<close>

definition disconnect_under :: "bool \<Rightarrow> world \<Rightarrow> mesh \<Rightarrow> error option \<times> mesh" where
  "disconnect_under bounded w s =
     (case connected_bluetooth_device s of
        None \<Rightarrow> (None, s)
      | Some device \<Rightarrow>
          (case link_disconnect w (s\<lparr>connected_bluetooth_device := None\<rparr>) device of
             (r, s1) \<Rightarrow>
               if disconnect_exceeds w (tick s) device then
                 (if bounded then (Some TimeoutError, s1)
                  else (None, async_update_mesh_state w s1))
               else
                 (case r of
                    Returned \<Rightarrow> (None, async_update_mesh_state w s1)
                  | Raised \<Rightarrow> (None, async_update_mesh_state w s1))))"

text \<open>The routine as the worker and the shutdown call it, with no bound around it.\<close>

definition disconnect_current_device :: "world \<Rightarrow> mesh \<Rightarrow> mesh" where
  "disconnect_current_device w s = snd (disconnect_under False w s)"


text \<open>The loop over the candidates. A connect that returns false or raises falls through
  to \<open>device.disconnect()\<close>, which is outside the \<open>try\<close>: its exception leaves the routine.\<close>

fun connect_loop :: "world \<Rightarrow> mesh \<Rightarrow> registry \<Rightarrow> error option \<times> mesh" where
  "connect_loop w s [] = (None, s)"
| "connect_loop w s ((mesh_id, d) # rest) =
     (case mac d of
        None \<Rightarrow> connect_loop w s rest
      | Some m \<Rightarrow>
          (case link_connect w s (Link m mesh_id) of
             (ConnTrue, s1) \<Rightarrow>
               (None, async_update_mesh_state w
                  (s1\<lparr>connected_bluetooth_device := Some (Link m mesh_id),
                      connected_device := Some (name d),
                      last_connection := Some (now w s1)\<rparr>))
           | (r, s1) \<Rightarrow>
               (case link_disconnect w s1 (Link m mesh_id) of
                  (Raised, s2) \<Rightarrow> (Some LinkError, s2)
                | (Returned, s2) \<Rightarrow> connect_loop w s2 rest)))"

definition async_connect_device :: "world \<Rightarrow> mesh \<Rightarrow> error option \<times> mesh" where
  "async_connect_device w s =
     (if is_connected w s then (None, s)
      else case connect_loop w s (devices s) of
        (Some e, s1) \<Rightarrow> (Some e, s1)
      | (None, s1) \<Rightarrow>
          (case connected_bluetooth_device s1 of
             None \<Rightarrow> (None, s1)
           | Some device \<Rightarrow> (None, log (SetStatusCallback device) s1)))"

section \<open>The command worker\<close>

definition call_command :: "world \<Rightarrow> mesh \<Rightarrow> command \<Rightarrow> (error + bool) \<times> mesh" where
  "call_command w s c =
     (case async_connect_device w s of
        (Some e, s1) \<Rightarrow> (Inl e, s1)
      | (None, s1) \<Rightarrow>
          (case connected_bluetooth_device s1 of
             None \<Rightarrow> (Inr False, s1)
           | Some device \<Rightarrow>
               if \<not> link_is_connected w (tick s1) device then (Inr False, s1)
               else
                 (case link_dispatch w s1 device c of
                    (r, s2) \<Rightarrow>
                      (let failed0 = (r = DispatchRaises);
                           failed = (failed0 \<or> (r \<noteq> Result \<and> \<not> allow_to_fail c \<and> \<not> failed0));
                           s3 = (if failed then disconnect_current_device w s2 else s2)
                       in if failed \<and> \<not> allow_to_fail c then (Inr False, s3)
                          else (Inr True, s3)))))"

text \<open>\<open>while not self._call_command(command) and tries < 3: tries = tries + 1\<close>; an
  exception leaves the loop.\<close>

function attempt_loop :: "world \<Rightarrow> mesh \<Rightarrow> command \<Rightarrow> nat \<Rightarrow> error option \<times> mesh" where
  "attempt_loop w s c tries =
     (case call_command w s c of
        (Inl e, s1) \<Rightarrow> (Some e, s1)
      | (Inr True, s1) \<Rightarrow> (None, s1)
      | (Inr False, s1) \<Rightarrow> if tries < 3 then attempt_loop w s1 c (tries + 1) else (None, s1))"
  by pat_completeness auto
termination
  by (relation "measure (\<lambda>(w, s, c, tries). 3 - tries)") auto

text \<open>The body of the worker's loop for the item \<open>c\<close> it took from the queue.\<close>

definition worker_iteration :: "world \<Rightarrow> mesh \<Rightarrow> command \<Rightarrow> mesh" where
  "worker_iteration w s c =
     (let s2 = (case attempt_loop w s c 0 of
                  (Some e, s1) \<Rightarrow> disconnect_current_device w s1
                | (None, s1) \<Rightarrow> s1)
      in case cb c of
           Some k \<Rightarrow> log (CommandExecuted k) s2
         | None \<Rightarrow> s2)"

text \<open>The worker is blocked in \<open>self._queue.get()\<close>, past the test of \<open>self._shutdown\<close>;
  it takes the items in order, tests the flag after each and, once the flag is set, its
  thread ends. With the queue empty it blocks again.\<close>

fun run_worker :: "world \<Rightarrow> mesh \<Rightarrow> command list \<Rightarrow> mesh" where
  "run_worker w s [] = s"
| "run_worker w s (c # cs) =
     (let s1 = worker_iteration w (s\<lparr>queue := cs\<rparr>) c
      in if shutdown s1 then s1\<lparr>command_tread_alive := False\<rparr> else run_worker w s1 cs)"

definition process_command_queue :: "world \<Rightarrow> mesh \<Rightarrow> mesh" where
  "process_command_queue w s = run_worker w s (queue s)"

section \<open>Issuing commands\<close>

text \<open>What an \<open>await\<close> of the caller does: it returns, it raises, or it polls for ever.\<close>

datatype outcome = Completes | Raises error | NeverReturns

text \<open>The caller puts the item on the queue and polls \<open>done\<close>, which the item's callback
  sets while the worker runs.\<close>

definition async_add_command_to_queue ::
    "world \<Rightarrow> mesh \<Rightarrow> string \<Rightarrow> params \<Rightarrow> bool \<Rightarrow> outcome \<times> mesh" where
  "async_add_command_to_queue w s cmd ps allow =
     (if \<not> command_tread_alive s then (Raises (UpdateFailed ''Command tread died!''), s)
      else
        (let k = closures s;
             item = \<lparr>c_command = cmd, c_params = ps, cb = Some k, allow_to_fail = allow\<rparr>;
             s1 = process_command_queue w (s\<lparr>closures := Suc k, queue := queue s @ [item]\<rparr>)
         in if CommandExecuted k \<in> set (trace s1) then (Completes, s1) else (NeverReturns, s1)))"

definition async_on :: "world \<Rightarrow> mesh \<Rightarrow> int \<Rightarrow> outcome \<times> mesh" where
  "async_on w s mesh_id = async_add_command_to_queue w s ''on'' (Kwargs [(''dest'', mesh_id)]) False"

definition async_off :: "world \<Rightarrow> mesh \<Rightarrow> int \<Rightarrow> outcome \<times> mesh" where
  "async_off w s mesh_id = async_add_command_to_queue w s ''off'' (Kwargs [(''dest'', mesh_id)]) False"

definition async_set_color :: "world \<Rightarrow> mesh \<Rightarrow> int \<Rightarrow> int \<Rightarrow> int \<Rightarrow> int \<Rightarrow> outcome \<times> mesh" where
  "async_set_color w s mesh_id r g b =
     async_add_command_to_queue w s ''setColor''
       (Kwargs [(''red'', r), (''green'', g), (''blue'', b), (''dest'', mesh_id)]) False"

definition async_set_color_brightness :: "world \<Rightarrow> mesh \<Rightarrow> int \<Rightarrow> int \<Rightarrow> outcome \<times> mesh" where
  "async_set_color_brightness w s mesh_id brightness =
     async_add_command_to_queue w s ''setColorBrightness''
       (Kwargs [(''brightness'', brightness), (''dest'', mesh_id)]) False"

definition async_set_white_temperature :: "world \<Rightarrow> mesh \<Rightarrow> int \<Rightarrow> int \<Rightarrow> outcome \<times> mesh" where
  "async_set_white_temperature w s mesh_id white_temperature =
     async_add_command_to_queue w s ''setWhiteTemperature''
       (Kwargs [(''temp'', white_temperature), (''dest'', mesh_id)]) False"

definition async_set_white_brightness :: "world \<Rightarrow> mesh \<Rightarrow> int \<Rightarrow> int \<Rightarrow> outcome \<times> mesh" where
  "async_set_white_brightness w s mesh_id brightness =
     async_add_command_to_queue w s ''setWhiteBrightness''
       (Kwargs [(''brightness'', brightness), (''dest'', mesh_id)]) False"

section \<open>The health check\<close>

text \<open>The loop of \<open>update_status_of_all_devices_to_disabled\<close>: the registry after it and
  the callbacks it made, in order.\<close>

fun disable_all :: "registry \<Rightarrow> registry \<times> event list" where
  "disable_all [] = ([], [])"
| "disable_all ((mesh_id, d) # rest) =
     (case disable_all rest of
        (ds, evs) \<Rightarrow>
          (case last_update d of
             None \<Rightarrow> ((mesh_id, d) # ds, evs)
           | Some t \<Rightarrow>
               ((mesh_id, d\<lparr>last_update := None\<rparr>) # ds, Callback (callback d) StateNone # evs)))"

definition update_status_of_all_devices_to_disabled :: "mesh \<Rightarrow> mesh" where
  "update_status_of_all_devices_to_disabled s =
     s\<lparr>devices := fst (disable_all (devices s)),
       trace := trace s @ snd (disable_all (devices s))\<rparr>"

text \<open>\<open>async with async_timeout.timeout(20): await self._async_add_command_to_queue(...)\<close>:
  the world says whether the wait outlasted the bound.\<close>

definition timed_command ::
    "world \<Rightarrow> mesh \<Rightarrow> string \<Rightarrow> params \<Rightarrow> bool \<Rightarrow> error option \<times> mesh" where
  "timed_command w s cmd ps allow =
     (case async_add_command_to_queue w s cmd ps allow of
        (Raises e, s1) \<Rightarrow> (Some e, s1)
      | (NeverReturns, s1) \<Rightarrow> (Some TimeoutError, advance s1)
      | (Completes, s1) \<Rightarrow>
          if wait_times_out w (tick s1) then (Some TimeoutError, advance s1)
          else (None, advance s1))"

text \<open>The first half of the loop body: the targeted request for a node with no update in
  the last 60 seconds.\<close>

definition refresh_device :: "world \<Rightarrow> mesh \<Rightarrow> int \<Rightarrow> device_info \<Rightarrow> error option \<times> mesh" where
  "refresh_device w s mesh_id d =
     (if (case last_update d of None \<Rightarrow> True | Some t \<Rightarrow> t < now w s - 60) then
        (case timed_command w s ''requestStatus''
                (Kwargs [(''dest'', mesh_id), (''withResponse'', 1)]) True of
           (Some e, s1) \<Rightarrow> (Some e, s1)
         | (None, s1) \<Rightarrow> (None, sleep w s1))
      else (None, s))"

text \<open>The second half: a node whose last update is more than 90 seconds old is disabled.\<close>

definition disable_if_stale :: "world \<Rightarrow> mesh \<Rightarrow> int \<Rightarrow> error option \<times> mesh" where
  "disable_if_stale w s mesh_id =
     (case map_of (devices s) mesh_id of
        None \<Rightarrow> (Some KeyError, s)
      | Some d \<Rightarrow>
          (case last_update d of
             None \<Rightarrow> (None, s)
           | Some t \<Rightarrow>
               if t < now w s - 90 then
                 (None, (log (Callback (callback d) StateNone) s)
                          \<lparr>devices := dict_set mesh_id (d\<lparr>last_update := None\<rparr>) (devices s)\<rparr>)
               else (None, s)))"

definition check_device :: "world \<Rightarrow> mesh \<Rightarrow> int \<Rightarrow> error option \<times> mesh" where
  "check_device w s mesh_id =
     (case map_of (devices s) mesh_id of
        None \<Rightarrow> (Some KeyError, s)
      | Some d \<Rightarrow>
          (case refresh_device w s mesh_id d of
             (Some e, s1) \<Rightarrow> (Some e, s1)
           | (None, s1) \<Rightarrow> disable_if_stale w s1 mesh_id))"

fun status_loop :: "world \<Rightarrow> mesh \<Rightarrow> int list \<Rightarrow> error option \<times> mesh" where
  "status_loop w s [] = (None, s)"
| "status_loop w s (mesh_id # rest) =
     (case check_device w s mesh_id of
        (Some e, s1) \<Rightarrow> (Some e, s1)
      | (None, s1) \<Rightarrow> status_loop w s1 rest)"

text \<open>The steps of \<open>_async_update_data\<close> after the test of the worker thread and before
  the test of the connection: forced reconnect after two hours, inside a \<open>timeout(10)\<close>
  whose \<open>TimeoutError\<close> leaves the health check; first RSSI scan (its errors are
  swallowed); broadcast status request.\<close>

definition forced_reconnect :: "world \<Rightarrow> mesh \<Rightarrow> error option \<times> mesh" where
  "forced_reconnect w s =
     (case last_connection s of
        None \<Rightarrow> (None, s)
      | Some t \<Rightarrow> if t < now w s - 7200 then disconnect_under True w s else (None, s))"

definition request_status :: "world \<Rightarrow> mesh \<Rightarrow> error option \<times> mesh" where
  "request_status w s =
     (case forced_reconnect w s of
        (Some e, s1) \<Rightarrow> (Some e, s1)
      | (None, s1) \<Rightarrow>
          (let s2 = (if last_rssi_check s1 = None then snd (async_get_devices_rssi w s1) else s1)
           in timed_command w s2 ''requestStatus''
                (Kwargs [(''dest'', 65535), (''withResponse'', 1)]) False))"

definition async_update_data :: "world \<Rightarrow> mesh \<Rightarrow> error option \<times> mesh" where
  "async_update_data w s =
     (if \<not> command_tread_alive s then (Some (UpdateFailed ''Command tread died!''), s)
      else case request_status w s of
        (Some e, s1) \<Rightarrow> (Some e, s1)
      | (None, s1) \<Rightarrow>
          if \<not> is_connected w s1 then
            (Some (UpdateFailed ''No device connected''),
             if \<not> last_update_success s1 then update_status_of_all_devices_to_disabled s1 else s1)
          else status_loop w (sleep w s1) (map fst (devices s1)))"

section \<open>Example worlds and registries\<close>

text \<open>A world in which nothing answers: every connect returns false, every dispatch
  returns no result, the scan fails.\<close>

definition quiet_world :: world where
  "quiet_world = \<lparr>now_at = (\<lambda>t. 1000), connect_result = (\<lambda>t l. ConnFalse),
     disconnect_result = (\<lambda>t l. Returned), disconnect_exceeds = (\<lambda>t l. False),
     link_is_connected = (\<lambda>t l. False),
     dispatch_result = (\<lambda>t l. NoResult), reports = (\<lambda>t. []),
     scan_result = (\<lambda>t. ScanRaises), wait_times_out = (\<lambda>t. False)\<rparr>"


definition empty_mesh :: mesh where
  "empty_mesh = \<lparr>devices = [], connected_bluetooth_device = None, last_rssi_check = None,
     last_connection = None, connected_device = None, queue = [], shutdown = False,
     command_tread_alive = True, last_update_success = True, closures = 0, tick = 0, trace = []\<rparr>"

text \<open>Three registered nodes A, B, C with ids 1, 2, 3.\<close>

definition abc_mesh :: mesh where
  "abc_mesh = register_device (register_device (register_device empty_mesh
      1 (Some ''a4:c1:38:00:00:0a'') ''A'' 1) 2 (Some ''a4:c1:38:00:00:0b'') ''B'' 2)
      3 (Some ''a4:c1:38:00:00:0c'') ''C'' 3"





text \<open>The links the connect routine makes, in registry order, and the events of a
  run of failed attempts on them while the reference \<open>held\<close> is owned.\<close>

fun candidates :: "registry \<Rightarrow> link list" where
  "candidates [] = []"
| "candidates ((mesh_id, d) # rest) =
     (case mac d of None \<Rightarrow> candidates rest | Some m \<Rightarrow> Link m mesh_id # candidates rest)"

definition attempt_events :: "link option \<Rightarrow> link list \<Rightarrow> event list" where
  "attempt_events held ls = concat (map (\<lambda>l. [LinkConnect l, LinkDisconnect l held]) ls)"


text \<open>A world in which connecting to B raises and connecting to the others returns
  false, and a world in which every connect returns false and every disconnect call
  raises.\<close>

definition failing_world :: world where
  "failing_world = quiet_world
     \<lparr>connect_result := (\<lambda>t l. if l = Link ''a4:c1:38:00:00:0b'' 2 then ConnRaises else ConnFalse)\<rparr>"

definition raising_world :: world where
  "raising_world = quiet_world\<lparr>disconnect_result := (\<lambda>t l. Raised)\<rparr>"

text \<open>The registry of A, B, C with a link to A owned.\<close>

definition linked_mesh :: mesh where
  "linked_mesh = abc_mesh\<lparr>connected_bluetooth_device := Some (Link ''a4:c1:38:00:00:0a'' 1),
     connected_device := Some ''A'', last_connection := Some 900\<rparr>"



text \<open>Events of the trace by kind.\<close>

fun is_done :: "event \<Rightarrow> bool" where
  "is_done (CommandExecuted k) = True"
| "is_done e = False"

fun is_dispatch :: "event \<Rightarrow> bool" where
  "is_dispatch (LinkDispatch l c p) = True"
| "is_dispatch e = False"

text \<open>\<open>grows n s s'\<close>: from \<open>s\<close> to \<open>s'\<close> the trace was extended by events that hold no
  completion callback and at most \<open>n\<close> dispatches, and the worker's flags, the queue, the
  closure counter and the outcome of the last health check are the same.\<close>

definition grows :: "nat \<Rightarrow> mesh \<Rightarrow> mesh \<Rightarrow> bool" where
  "grows n s s' =
     (\<exists>evs. trace s' = trace s @ evs
        \<and> (\<forall>e \<in> set evs. \<not> is_done e)
        \<and> length (filter is_dispatch evs) \<le> n
        \<and> shutdown s' = shutdown s \<and> queue s' = queue s \<and> closures s' = closures s
        \<and> command_tread_alive s' = command_tread_alive s
        \<and> last_update_success s' = last_update_success s)"

text \<open>Commands, and worlds in which a link to the first candidate always opens: in
  \<open>flaky_world\<close> a dispatch returns nothing before tick 7 and a result from then on, in
  \<open>mute_world\<close> it never returns a result, in \<open>broken_world\<close> it raises.\<close>

definition on_cmd :: command where
  "on_cmd = \<lparr>c_command = ''on'', c_params = Kwargs [(''dest'', 1)], cb = Some 0, allow_to_fail = False\<rparr>"

definition status_cmd :: command where
  "status_cmd = \<lparr>c_command = ''requestStatus'', c_params = Kwargs [(''dest'', 1), (''withResponse'', 1)],
     cb = Some 0, allow_to_fail = True\<rparr>"

definition flaky_world :: world where
  "flaky_world = quiet_world\<lparr>connect_result := (\<lambda>t l. ConnTrue), link_is_connected := (\<lambda>t l. True),
     dispatch_result := (\<lambda>t l. if t < 7 then NoResult else Result)\<rparr>"

definition mute_world :: world where
  "mute_world = quiet_world\<lparr>connect_result := (\<lambda>t l. ConnTrue), link_is_connected := (\<lambda>t l. True)\<rparr>"

definition off_cmd :: command where
  "off_cmd = \<lparr>c_command = ''off'', c_params = Kwargs [(''dest'', 1)], cb = Some 1, allow_to_fail = False\<rparr>"

definition flaky1 :: mesh where "flaky1 = snd (call_command flaky_world abc_mesh on_cmd)"
definition flaky2 :: mesh where "flaky2 = snd (call_command flaky_world flaky1 on_cmd)"
definition flaky3 :: mesh where "flaky3 = snd (call_command flaky_world flaky2 on_cmd)"

definition mute0 :: mesh where "mute0 = snd (async_connect_device mute_world abc_mesh)"
definition mute1 :: mesh where "mute1 = snd (call_command mute_world abc_mesh on_cmd)"
definition mute2 :: mesh where "mute2 = snd (call_command mute_world mute1 on_cmd)"
definition mute3 :: mesh where "mute3 = snd (call_command mute_world mute2 on_cmd)"
definition mute4 :: mesh where "mute4 = snd (call_command mute_world mute3 on_cmd)"

definition broken_world :: world where
  "broken_world = mute_world\<lparr>dispatch_result := (\<lambda>t l. DispatchRaises)\<rparr>"

definition broken0 :: mesh where "broken0 = snd (async_connect_device broken_world abc_mesh)"
definition quiet0 :: mesh where "quiet0 = snd (async_connect_device quiet_world abc_mesh)"

text \<open>Meshes and worlds for the health check: a mesh whose worker thread has ended; a
  mesh in which A and C have reported a status and the previous cycle failed
  (\<open>seen_mesh\<close>) or succeeded (\<open>first_mesh\<close>); a mesh with a link to A in which, at the
  time 1000 of the example worlds, A reported 91 seconds ago, B 30 seconds ago and C
  95 seconds ago; a world in which every dispatch returns a result and no report comes; the same
  world with a report of node 1 delivered at tick 3, during the request for node 1.\<close>

definition dead_mesh :: mesh where
  "dead_mesh = abc_mesh\<lparr>command_tread_alive := False\<rparr>"

definition seen_mesh :: mesh where
  "seen_mesh = abc_mesh
     \<lparr>devices :=
        [(1, \<lparr>mac = Some ''a4:c1:38:00:00:0a'', name = ''A'', callback = 1, last_update = Some 900, rssi = None\<rparr>),
         (2, \<lparr>mac = Some ''a4:c1:38:00:00:0b'', name = ''B'', callback = 2, last_update = None, rssi = None\<rparr>),
         (3, \<lparr>mac = Some ''a4:c1:38:00:00:0c'', name = ''C'', callback = 3, last_update = Some 950, rssi = None\<rparr>)],
      last_rssi_check := Some 0, last_update_success := False\<rparr>"

definition first_mesh :: mesh where
  "first_mesh = seen_mesh\<lparr>last_update_success := True\<rparr>"

definition seen1 :: mesh where "seen1 = snd (request_status quiet_world seen_mesh)"
definition first1 :: mesh where "first1 = snd (request_status quiet_world first_mesh)"







definition steady :: "int \<Rightarrow> mesh \<Rightarrow> mesh \<Rightarrow> bool" where
  "steady i s s' =
     (tick s \<le> tick s' \<and> map_of (devices s') i = map_of (devices s) i
      \<and> (\<exists>evs. trace s' = trace s @ evs))"









section \<open>Properties of the registry\<close>

lemma map_of_dict_set_same: "map_of (dict_set k v ds) k = Some v"
  by (induction k v ds rule: dict_set.induct) auto

lemma map_of_dict_set_other: "k' \<noteq> k \<Longrightarrow> map_of (dict_set k v ds) k' = map_of ds k'"
  by (induction k v ds rule: dict_set.induct) auto

lemma keys_dict_set_present: "k \<in> fst ` set ds \<Longrightarrow> map fst (dict_set k v ds) = map fst ds"
  by (induction k v ds rule: dict_set.induct) auto

lemma devices_abc_mesh:
  "devices abc_mesh =
     [(1, \<lparr>mac = Some ''a4:c1:38:00:00:0a'', name = ''A'', callback = 1, last_update = None, rssi = None\<rparr>),
      (2, \<lparr>mac = Some ''a4:c1:38:00:00:0b'', name = ''B'', callback = 2, last_update = None, rssi = None\<rparr>),
      (3, \<lparr>mac = Some ''a4:c1:38:00:00:0c'', name = ''C'', callback = 3, last_update = None, rssi = None\<rparr>)]"
  by (simp add: abc_mesh_def empty_mesh_def register_device_def)

text \<open>
  C10. Registering a node id that is already in the registry overwrites the entry: the
  address, the name and the subscriber callback are the new ones, \<open>last_update\<close> is None
  (and no \<open>rssi\<close> is kept); every other key reads as before, the order of the keys is
  unchanged, and nothing but the registry changes (no error value exists in the result
  type, no event is logged).
\<close>

theorem register_device_overwrites:
  assumes "mesh_id \<in> fst ` set (devices s)"
  shows "map_of (devices (register_device s mesh_id m n f)) mesh_id
           = Some \<lparr>mac = m, name = n, callback = f, last_update = None, rssi = None\<rparr>
       \<and> (\<forall>k. k \<noteq> mesh_id \<longrightarrow>
             map_of (devices (register_device s mesh_id m n f)) k = map_of (devices s) k)
       \<and> map fst (devices (register_device s mesh_id m n f)) = map fst (devices s)
       \<and> register_device s mesh_id m n f
           = s\<lparr>devices := devices (register_device s mesh_id m n f)\<rparr>"
  using assms
  by (simp add: register_device_def map_of_dict_set_same map_of_dict_set_other
      keys_dict_set_present)

theorem register_device_overwrites_witness:
  "map_of (devices (register_device abc_mesh 2 (Some ''11:22'') ''B2'' 7)) 2
      = Some \<lparr>mac = Some ''11:22'', name = ''B2'', callback = 7, last_update = None, rssi = None\<rparr>
   \<and> map_of (devices (register_device abc_mesh 2 (Some ''11:22'') ''B2'' 7)) 3
      = map_of (devices abc_mesh) 3
   \<and> map fst (devices (register_device abc_mesh 2 (Some ''11:22'') ''B2'' 7)) = [1, 2, 3]"
proof -
  have h: "(2::int) \<in> fst ` set (devices abc_mesh)"
    by (simp add: devices_abc_mesh)
  have k: "map fst (devices abc_mesh) = [1, 2, 3]"
    by (simp add: devices_abc_mesh)
  from register_device_overwrites [OF h, of "Some ''11:22''" "''B2''" 7] k
  show ?thesis by simp
qed

section \<open>Properties of the RSSI scan\<close>
















section \<open>Properties of connecting and disconnecting\<close>

lemma disconnect_current_device_Some:
  "connected_bluetooth_device s = Some device \<Longrightarrow>
   disconnect_current_device w s =
     s\<lparr>connected_bluetooth_device := None, connected_device := None, tick := Suc (tick s),
       trace := trace s @ [LinkDisconnect device None, UpdateListeners]\<rparr>"
  by (simp add: disconnect_current_device_def disconnect_under_def link_disconnect_def
      async_update_mesh_state_def is_connected_def log_def advance_def
      split: call_outcome.splits)

lemma disconnect_current_device_None:
  "connected_bluetooth_device s = None \<Longrightarrow> disconnect_current_device w s = s"
  by (simp add: disconnect_current_device_def disconnect_under_def)





lemma connect_loop_all_fail:
  assumes "\<forall>t l. connect_result w t l \<noteq> ConnTrue"
  shows "connected_bluetooth_device s = held \<Longrightarrow>
    \<exists>e s' att rest. connect_loop w s ds = (e, s')
      \<and> connected_bluetooth_device s' = held
      \<and> connected_device s' = connected_device s
      \<and> candidates ds = att @ rest
      \<and> trace s' = trace s @ attempt_events held att
      \<and> (e = None \<longrightarrow> rest = [])
      \<and> ((\<forall>t l. disconnect_result w t l = Returned) \<longrightarrow> e = None)"
proof (induction ds arbitrary: s)
  case Nil
  then show ?case by (simp add: attempt_events_def)
next
  case (Cons p ds)
  obtain mesh_id d where p: "p = (mesh_id, d)" by (cases p)
  show ?case
  proof (cases "mac d")
    case None
    with Cons p show ?thesis by simp
  next
    case (Some m)
    let ?l = "Link m mesh_id"
    let ?s1 = "advance (log (LinkConnect ?l) s)"
    let ?s2 = "advance (log (LinkDisconnect ?l held) ?s1)"
    have ref2: "connected_bluetooth_device ?s2 = held"
      using Cons.prems by (simp add: advance_def log_def)
    have tr2: "trace ?s2 = trace s @ attempt_events held [?l]"
      by (simp add: advance_def log_def attempt_events_def)
    have cd2: "connected_device ?s2 = connected_device s"
      by (simp add: advance_def log_def)
    have ld: "link_disconnect w ?s1 ?l = (disconnect_result w (tick ?s1) ?l, ?s2)"
      using Cons.prems by (simp add: link_disconnect_def advance_def log_def)
    have nt: "connect_result w (tick s) ?l \<noteq> ConnTrue" using assms by simp
    show ?thesis
    proof (cases "disconnect_result w (tick ?s1) ?l")
      case Raised
      have "connect_loop w s (p # ds) = (Some LinkError, ?s2)"
        using p Some nt ld Raised
        by (cases "connect_result w (tick s) ?l") (simp_all add: link_connect_def)
      moreover have "candidates (p # ds) = [?l] @ candidates ds"
        using p Some by simp
      ultimately show ?thesis
        using ref2 tr2 cd2 Raised by (metis call_outcome.distinct(1) option.distinct(1))
    next
      case Returned
      have eq: "connect_loop w s (p # ds) = connect_loop w ?s2 ds"
        using p Some nt ld Returned
        by (cases "connect_result w (tick s) ?l") (simp_all add: link_connect_def)
      from Cons.IH [OF ref2] obtain e s' att rest where ih:
        "connect_loop w ?s2 ds = (e, s')" "connected_bluetooth_device s' = held"
        "connected_device s' = connected_device ?s2"
        "candidates ds = att @ rest" "trace s' = trace ?s2 @ attempt_events held att"
        "e = None \<longrightarrow> rest = []" "(\<forall>t l. disconnect_result w t l = Returned) \<longrightarrow> e = None"
        by blast
      have "candidates (p # ds) = (?l # att) @ rest"
        using p Some ih(4) by simp
      moreover have "trace s' = trace s @ attempt_events held (?l # att)"
        using ih(5) tr2 by (simp add: attempt_events_def)
      ultimately show ?thesis
        using eq ih(1,2,3,6,7) cd2 by metis
    qed
  qed
qed

text \<open>
  C5, as the code has it. Starting from a state that is not connected, if no candidate's
  connect returns true (it returns false or raises, a timeout included), the connect
  routine ends with the reference it started with and with the connected-device name as
  it was; what it did is a connect call followed by a disconnect call on each candidate
  it tried, in registry order, and at the end, when a reference is held and no disconnect
  raised, the wiring of the status callback to that reference. The candidates it tried
  are all of them when the routine returns; a disconnect call that raises ends the
  routine with that error after the candidate in question. So from a start with no link
  owned no link is owned at the end and the state is not connected; from a start with a
  held reference whose link is down the reference is kept, and the state is connected
  again exactly when that link reports so.
\<close>

theorem connect_all_fail:
  assumes "\<not> is_connected w s"
    and "\<forall>t l. connect_result w t l \<noteq> ConnTrue"
  shows "\<exists>e s' att rest. async_connect_device w s = (e, s')
      \<and> connected_bluetooth_device s' = connected_bluetooth_device s
      \<and> connected_device s' = connected_device s
      \<and> is_connected w s' =
           (case connected_bluetooth_device s of
              None \<Rightarrow> False
            | Some device \<Rightarrow> link_is_connected w (tick s') device)
      \<and> candidates (devices s) = att @ rest
      \<and> trace s' = trace s @ attempt_events (connected_bluetooth_device s) att
           @ (case (e, connected_bluetooth_device s) of
                (None, Some device) \<Rightarrow> [SetStatusCallback device]
              | _ \<Rightarrow> [])
      \<and> (e = None \<longrightarrow> rest = [])
      \<and> ((\<forall>t l. disconnect_result w t l = Returned) \<longrightarrow> e = None)"
proof -
  from connect_loop_all_fail [OF assms(2), of s "connected_bluetooth_device s" "devices s"]
  obtain e s1 att rest where r: "connect_loop w s (devices s) = (e, s1)"
      "connected_bluetooth_device s1 = connected_bluetooth_device s"
      "connected_device s1 = connected_device s"
      "candidates (devices s) = att @ rest"
      "trace s1 = trace s @ attempt_events (connected_bluetooth_device s) att"
      "e = None \<longrightarrow> rest = []" "(\<forall>t l. disconnect_result w t l = Returned) \<longrightarrow> e = None"
    by blast
  let ?s' = "snd (async_connect_device w s)"
  have res: "async_connect_device w s =
      (e, case (e, connected_bluetooth_device s) of
            (None, Some device) \<Rightarrow> log (SetStatusCallback device) s1
          | _ \<Rightarrow> s1)"
    using assms(1) r(1,2)
    by (cases e; cases "connected_bluetooth_device s") (simp_all add: async_connect_device_def)
  have f1: "connected_bluetooth_device ?s' = connected_bluetooth_device s"
    using r(2) by (cases e; cases "connected_bluetooth_device s") (simp_all add: res log_def)
  have f2: "connected_device ?s' = connected_device s"
    using r(3) by (cases e; cases "connected_bluetooth_device s") (simp_all add: res log_def)
  have f3: "trace ?s' = trace s @ attempt_events (connected_bluetooth_device s) att
           @ (case (e, connected_bluetooth_device s) of
                (None, Some device) \<Rightarrow> [SetStatusCallback device]
              | _ \<Rightarrow> [])"
    using r(5) by (cases e; cases "connected_bluetooth_device s") (simp_all add: res log_def)
  have f4: "is_connected w ?s' =
           (case connected_bluetooth_device s of
              None \<Rightarrow> False
            | Some device \<Rightarrow> link_is_connected w (tick ?s') device)"
    using f1 by (simp add: is_connected_def)
  have "async_connect_device w s = (e, ?s')" by (simp add: res)
  with f1 f2 f3 f4 r(4,6,7) show ?thesis by blast
qed

lemma failing_world_run:
  "async_connect_device failing_world abc_mesh =
     (None, abc_mesh\<lparr>tick := 6, trace := attempt_events None (candidates (devices abc_mesh))\<rparr>)"
  by (simp add: async_connect_device_def is_connected_def devices_abc_mesh link_connect_def
      link_disconnect_def failing_world_def quiet_world_def advance_def log_def attempt_events_def
      abc_mesh_def register_device_def empty_mesh_def)

lemma held_run:
  "\<not> is_connected quiet_world linked_mesh"
  "fst (async_connect_device quiet_world linked_mesh) = None"
  "connected_bluetooth_device (snd (async_connect_device quiet_world linked_mesh))
     = Some (Link ''a4:c1:38:00:00:0a'' 1)"
  "connected_device (snd (async_connect_device quiet_world linked_mesh)) = Some ''A''"
  "trace (snd (async_connect_device quiet_world linked_mesh))
     = [LinkConnect (Link ''a4:c1:38:00:00:0a'' 1),
        LinkDisconnect (Link ''a4:c1:38:00:00:0a'' 1) (Some (Link ''a4:c1:38:00:00:0a'' 1)),
        LinkConnect (Link ''a4:c1:38:00:00:0b'' 2),
        LinkDisconnect (Link ''a4:c1:38:00:00:0b'' 2) (Some (Link ''a4:c1:38:00:00:0a'' 1)),
        LinkConnect (Link ''a4:c1:38:00:00:0c'' 3),
        LinkDisconnect (Link ''a4:c1:38:00:00:0c'' 3) (Some (Link ''a4:c1:38:00:00:0a'' 1)),
        SetStatusCallback (Link ''a4:c1:38:00:00:0a'' 1)]"
  by (simp_all add: async_connect_device_def is_connected_def link_connect_def
      link_disconnect_def quiet_world_def advance_def log_def linked_mesh_def
      abc_mesh_def register_device_def empty_mesh_def)

theorem connect_all_fail_witness:
  "\<not> is_connected failing_world abc_mesh
   \<and> (\<forall>t l. connect_result failing_world t l \<noteq> ConnTrue)
   \<and> (\<exists>e s' att rest. async_connect_device failing_world abc_mesh = (e, s')
        \<and> connected_bluetooth_device s' = None
        \<and> \<not> is_connected failing_world s'
        \<and> candidates (devices abc_mesh) = att @ rest
        \<and> trace s' = trace abc_mesh @ attempt_events None att
        \<and> (e = None \<longrightarrow> rest = []))
   \<and> trace (snd (async_connect_device failing_world abc_mesh))
       = [LinkConnect (Link ''a4:c1:38:00:00:0a'' 1), LinkDisconnect (Link ''a4:c1:38:00:00:0a'' 1) None,
          LinkConnect (Link ''a4:c1:38:00:00:0b'' 2), LinkDisconnect (Link ''a4:c1:38:00:00:0b'' 2) None,
          LinkConnect (Link ''a4:c1:38:00:00:0c'' 3), LinkDisconnect (Link ''a4:c1:38:00:00:0c'' 3) None]
   \<and> \<not> is_connected quiet_world linked_mesh
   \<and> (\<exists>e s'. async_connect_device quiet_world linked_mesh = (e, s')
        \<and> connected_bluetooth_device s' = Some (Link ''a4:c1:38:00:00:0a'' 1)
        \<and> connected_device s' = Some ''A'')"
proof -
  have r0: "connected_bluetooth_device abc_mesh = None"
    by (simp add: abc_mesh_def register_device_def empty_mesh_def)
  then have h1: "\<not> is_connected failing_world abc_mesh"
    by (simp add: is_connected_def)
  have h2: "\<forall>t l. connect_result failing_world t l \<noteq> ConnTrue"
    by (simp add: failing_world_def quiet_world_def)
  have h3: "\<forall>t l. connect_result quiet_world t l \<noteq> ConnTrue"
    by (simp add: quiet_world_def)
  have r1: "connected_bluetooth_device linked_mesh = Some (Link ''a4:c1:38:00:00:0a'' 1)"
    "connected_device linked_mesh = Some ''A''"
    by (simp_all add: linked_mesh_def)
  from connect_all_fail [OF h1 h2] obtain e s' att rest where x:
    "async_connect_device failing_world abc_mesh = (e, s')"
    "connected_bluetooth_device s' = connected_bluetooth_device abc_mesh"
    "is_connected failing_world s' =
           (case connected_bluetooth_device abc_mesh of
              None \<Rightarrow> False
            | Some device \<Rightarrow> link_is_connected failing_world (tick s') device)"
    "candidates (devices abc_mesh) = att @ rest"
    "trace s' = trace abc_mesh @ attempt_events (connected_bluetooth_device abc_mesh) att
           @ (case (e, connected_bluetooth_device abc_mesh) of
                (None, Some device) \<Rightarrow> [SetStatusCallback device]
              | _ \<Rightarrow> [])"
    "e = None \<longrightarrow> rest = []"
    by blast
  have x5: "trace s' = trace abc_mesh @ attempt_events None att"
    using x(5) r0 by (cases e) simp_all
  have a: "\<exists>e s' att rest. async_connect_device failing_world abc_mesh = (e, s')
        \<and> connected_bluetooth_device s' = None
        \<and> \<not> is_connected failing_world s'
        \<and> candidates (devices abc_mesh) = att @ rest
        \<and> trace s' = trace abc_mesh @ attempt_events None att
        \<and> (e = None \<longrightarrow> rest = [])"
    using x(1,2,3,4,6) x5 r0 by auto
  from connect_all_fail [OF held_run(1) h3] obtain e2 s2 where y:
    "async_connect_device quiet_world linked_mesh = (e2, s2)"
    "connected_bluetooth_device s2 = connected_bluetooth_device linked_mesh"
    "connected_device s2 = connected_device linked_mesh"
    by blast
  have c: "\<exists>e s'. async_connect_device quiet_world linked_mesh = (e, s')
        \<and> connected_bluetooth_device s' = Some (Link ''a4:c1:38:00:00:0a'' 1)
        \<and> connected_device s' = Some ''A''"
    using y r1 by auto
  have b: "trace (snd (async_connect_device failing_world abc_mesh))
       = [LinkConnect (Link ''a4:c1:38:00:00:0a'' 1), LinkDisconnect (Link ''a4:c1:38:00:00:0a'' 1) None,
          LinkConnect (Link ''a4:c1:38:00:00:0b'' 2), LinkDisconnect (Link ''a4:c1:38:00:00:0b'' 2) None,
          LinkConnect (Link ''a4:c1:38:00:00:0c'' 3), LinkDisconnect (Link ''a4:c1:38:00:00:0c'' 3) None]"
    by (simp add: failing_world_run attempt_events_def devices_abc_mesh)
  from h1 h2 a b held_run(1) c show ?thesis by blast
qed

text \<open>With the link to A held and down and no candidate reachable, the routine ends with
  the reference to A still held and A still named as the connected device.\<close>

theorem connect_all_fail_counterexample:
  "\<not> is_connected quiet_world linked_mesh
   \<and> connect_result quiet_world 0 (Link ''a4:c1:38:00:00:0a'' 1) = ConnFalse
   \<and> fst (async_connect_device quiet_world linked_mesh) = None
   \<and> connected_bluetooth_device (snd (async_connect_device quiet_world linked_mesh))
       = Some (Link ''a4:c1:38:00:00:0a'' 1)
   \<and> connected_device (snd (async_connect_device quiet_world linked_mesh)) = Some ''A''"
  using held_run by (simp add: quiet_world_def)

section \<open>What the worker adds to the trace\<close>

lemma grows_refl: "grows 0 s s"
  by (simp add: grows_def)

lemma grows_trans: "grows n s s1 \<Longrightarrow> grows m s1 s2 \<Longrightarrow> grows (n + m) s s2"
  unfolding grows_def
  by (elim exE conjE, rule_tac x = "evs @ evsa" in exI) auto

lemma grows_mono: "grows n s s' \<Longrightarrow> n \<le> m \<Longrightarrow> grows m s s'"
  unfolding grows_def by fastforce

lemma grows_update_mesh_state: "grows 0 s (async_update_mesh_state w s)"
  by (simp add: grows_def async_update_mesh_state_def log_def)

lemma grows_link_connect: "grows 0 s (snd (link_connect w s l))"
  by (simp add: grows_def link_connect_def log_def advance_def)

lemma grows_link_disconnect: "grows 0 s (snd (link_disconnect w s l))"
  by (simp add: grows_def link_disconnect_def log_def advance_def)

lemma grows_mesh_status_callback: "grows 0 s (mesh_status_callback w s st)"
  by (simp add: grows_def mesh_status_callback_def log_def split: status.splits option.splits)

lemma grows_foldl_callback: "grows 0 s (foldl (mesh_status_callback w) s sts)"
proof (induction sts arbitrary: s)
  case Nil
  show ?case by (simp add: grows_refl)
next
  case (Cons st sts)
  from grows_trans [OF grows_mesh_status_callback Cons.IH]
  show ?case by simp
qed

lemma grows_deliver_reports: "grows 0 s (deliver_reports w s)"
  by (simp add: deliver_reports_def grows_foldl_callback)

lemma grows_sleep: "grows 0 s (sleep w s)"
  using grows_deliver_reports [of s w] by (simp add: sleep_def grows_def advance_def)

lemma grows_link_dispatch: "grows 1 s (snd (link_dispatch w s l c))"
proof -
  have a: "grows 1 s (log (LinkDispatch l (c_command c) (c_params c)) s)"
    by (simp add: grows_def log_def)
  from grows_trans [OF a grows_deliver_reports]
  show ?thesis by (simp add: link_dispatch_def grows_def advance_def)
qed

lemma grows_disconnect_current_device: "grows 0 s (disconnect_current_device w s)"
proof (cases "connected_bluetooth_device s")
  case None
  then show ?thesis by (simp add: disconnect_current_device_None grows_refl)
next
  case (Some device)
  then show ?thesis by (simp add: disconnect_current_device_Some grows_def)
qed

lemma grows_connect_loop: "grows 0 s (snd (connect_loop w s ds))"
proof (induction ds arbitrary: s)
  case Nil
  show ?case by (simp add: grows_refl)
next
  case (Cons p ds)
  obtain mesh_id d where p: "p = (mesh_id, d)" by (cases p)
  show ?case
  proof (cases "mac d")
    case None
    with Cons p show ?thesis by simp
  next
    case (Some m)
    let ?l = "Link m mesh_id"
    obtain r s1 where c: "link_connect w s ?l = (r, s1)" by (cases "link_connect w s ?l")
    with grows_link_connect [of s w ?l] have g1: "grows 0 s s1" by simp
    obtain r2 s2 where dc: "link_disconnect w s1 ?l = (r2, s2)" by (cases "link_disconnect w s1 ?l")
    with grows_link_disconnect [of s1 w ?l] have g2: "grows 0 s1 s2" by simp
    from grows_trans [OF g1 g2] have g12: "grows 0 s s2" by simp
    have g3: "grows 0 s1 (async_update_mesh_state w
                  (s1\<lparr>connected_bluetooth_device := Some ?l, connected_device := Some (name d),
                      last_connection := Some (now w s1)\<rparr>))"
      by (simp add: grows_def async_update_mesh_state_def log_def)
    from grows_trans [OF g1 g3] have g13: "grows 0 s (async_update_mesh_state w
                  (s1\<lparr>connected_bluetooth_device := Some ?l, connected_device := Some (name d),
                      last_connection := Some (now w s1)\<rparr>))" by simp
    from grows_trans [OF g12 Cons.IH [of s2]] have g4: "grows 0 s (snd (connect_loop w s2 ds))" by simp
    show ?thesis
      using p Some c dc g12 g13 g4
      by (cases r; cases r2) simp_all
  qed
qed

lemma grows_async_connect_device: "grows 0 s (snd (async_connect_device w s))"
proof -
  obtain e s1 where c: "connect_loop w s (devices s) = (e, s1)"
    by (cases "connect_loop w s (devices s)")
  with grows_connect_loop [of s w "devices s"] have g: "grows 0 s s1" by simp
  have "\<And>l. grows 0 s1 (log (SetStatusCallback l) s1)"
    by (simp add: grows_def log_def)
  from grows_trans [OF g this] have g': "\<And>l. grows 0 s (log (SetStatusCallback l) s1)"
    by simp
  show ?thesis
    using c g g' by (simp add: async_connect_device_def grows_refl split: option.splits)
qed

lemma grows_call_command: "grows 1 s (snd (call_command w s c))"
proof -
  obtain e s1 where c1: "async_connect_device w s = (e, s1)"
    by (cases "async_connect_device w s")
  with grows_async_connect_device [of s w] have g1: "grows 0 s s1" by simp
  then have g1': "grows 1 s s1" by (rule grows_mono) simp
  show ?thesis
  proof (cases "e = None \<and> (\<exists>device. connected_bluetooth_device s1 = Some device
        \<and> link_is_connected w (tick s1) device)")
    case False
    then show ?thesis using c1 g1'
      by (auto simp: call_command_def split: option.splits)
  next
    case True
    then obtain device where d: "e = None" "connected_bluetooth_device s1 = Some device"
      "link_is_connected w (tick s1) device" by blast
    obtain r s2 where ld: "link_dispatch w s1 device c = (r, s2)"
      by (cases "link_dispatch w s1 device c")
    with grows_link_dispatch [of s1 w device c] have g2: "grows 1 s1 s2" by simp
    from grows_trans [OF g1 g2] have g12: "grows 1 s s2" by simp
    from grows_trans [OF g12 grows_disconnect_current_device]
    have g3: "grows 1 s (disconnect_current_device w s2)" by simp
    show ?thesis
      using c1 d ld g12 g3 by (simp add: call_command_def Let_def)
  qed
qed

declare attempt_loop.simps [simp del]

lemma grows_attempt_loop: "tries \<le> 3 \<Longrightarrow> grows (4 - tries) s (snd (attempt_loop w s c tries))"
proof (induction w s c tries rule: attempt_loop.induct)
  case (1 w s c tries)
  obtain r s1 where cc: "call_command w s c = (r, s1)" by (cases "call_command w s c")
  with grows_call_command [of s w c] have g1: "grows 1 s s1" by simp
  show ?case
  proof (cases "r = Inr False \<and> tries < 3")
    case True
    have ih: "grows (4 - (tries + 1)) s1 (snd (attempt_loop w s1 c (tries + 1)))"
      using "1.IH" [of "Inr False" s1 False] cc True by simp
    have "1 + (4 - (tries + 1)) = 4 - tries" using True by arith
    with grows_trans [OF g1 ih]
    have "grows (4 - tries) s (snd (attempt_loop w s1 c (tries + 1)))"
      by simp
    then show ?thesis
      using cc True by (subst attempt_loop.simps) simp
  next
    case False
    have "grows (4 - tries) s s1"
      using g1 by (rule grows_mono) (use "1.prems" in simp)
    then show ?thesis
      using cc False by (subst attempt_loop.simps) (auto split: sum.splits bool.splits)
  qed
qed

section \<open>Properties of the command worker\<close>

lemma grows_worker_body:
  "grows 4 s (case attempt_loop w s c 0 of
                  (Some e, s1) \<Rightarrow> disconnect_current_device w s1
                | (None, s1) \<Rightarrow> s1)"
proof -
  obtain e s1 where a: "attempt_loop w s c 0 = (e, s1)" by (cases "attempt_loop w s c 0")
  with grows_attempt_loop [of 0 s w c] have g: "grows 4 s s1" by simp
  from grows_trans [OF g grows_disconnect_current_device]
  have "grows 4 s (disconnect_current_device w s1)" by simp
  with a g show ?thesis by (cases e) simp_all
qed

lemma worker_iteration_trace:
  assumes "cb c = Some k"
  shows "\<exists>evs. trace (worker_iteration w s c) = trace s @ evs @ [CommandExecuted k]
           \<and> (\<forall>e \<in> set evs. \<not> is_done e)
           \<and> length (filter is_dispatch evs) \<le> 4
           \<and> shutdown (worker_iteration w s c) = shutdown s"
  using grows_worker_body [of s w c] assms
  by (auto simp: worker_iteration_def grows_def log_def Let_def)

lemma run_worker_done:
  "\<not> shutdown s \<Longrightarrow> map cb cs = map Some ks \<Longrightarrow>
   filter is_done (trace (run_worker w s cs)) = filter is_done (trace s) @ map CommandExecuted ks"
proof (induction cs arbitrary: s ks)
  case Nil
  then show ?case by simp
next
  case (Cons c cs)
  then obtain k ks' where ks: "ks = k # ks'" "cb c = Some k" "map cb cs = map Some ks'"
    by (cases ks) auto
  let ?s0 = "s\<lparr>queue := cs\<rparr>"
  let ?s1 = "worker_iteration w ?s0 c"
  from worker_iteration_trace [OF ks(2), of w ?s0]
  obtain evs where ev: "trace ?s1 = trace s @ evs @ [CommandExecuted k]"
    "\<forall>e \<in> set evs. \<not> is_done e" "shutdown ?s1 = shutdown s"
    by auto
  have f: "filter is_done (trace ?s1) = filter is_done (trace s) @ [CommandExecuted k]"
    using ev(1,2) by simp
  have ns: "\<not> shutdown ?s1" using ev(3) Cons.prems(1) by simp
  from Cons.IH [OF ns ks(3)] f ks(1) ns
  show ?case by (simp add: Let_def)
qed

lemmas run_simps = call_command_def async_connect_device_def
      is_connected_def devices_abc_mesh link_connect_def link_disconnect_def link_dispatch_def
      deliver_reports_def quiet_world_def advance_def log_def now_def
      async_update_mesh_state_def disconnect_current_device_def disconnect_under_def on_cmd_def
      abc_mesh_def register_device_def empty_mesh_def Let_def

lemma flaky_calls:
  "call_command flaky_world abc_mesh on_cmd = (Inr False, flaky1)"
  "call_command flaky_world flaky1 on_cmd = (Inr False, flaky2)"
  "call_command flaky_world flaky2 on_cmd = (Inr True, flaky3)"
  by (simp_all add: flaky1_def flaky2_def flaky3_def flaky_world_def run_simps)

lemma mute_calls:
  "call_command mute_world abc_mesh on_cmd = (Inr False, mute1)"
  "call_command mute_world mute1 on_cmd = (Inr False, mute2)"
  "call_command mute_world mute2 on_cmd = (Inr False, mute3)"
  "call_command mute_world mute3 on_cmd = (Inr False, mute4)"
  by (simp_all add: mute1_def mute2_def mute3_def mute4_def mute_world_def run_simps)

lemma mute_connect:
  "async_connect_device mute_world abc_mesh = (None, mute0)"
  "connected_bluetooth_device mute0 = Some (Link ''a4:c1:38:00:00:0a'' 1)"
  "link_is_connected mute_world (tick mute0) (Link ''a4:c1:38:00:00:0a'' 1)"
  "dispatch_result mute_world (tick mute0) (Link ''a4:c1:38:00:00:0a'' 1) \<noteq> Result"
  "\<not> allow_to_fail on_cmd"
  by (simp_all add: mute0_def mute_world_def run_simps)

lemma raising_run:
  "trace (worker_iteration raising_world abc_mesh on_cmd) =
     [LinkConnect (Link ''a4:c1:38:00:00:0a'' 1), LinkDisconnect (Link ''a4:c1:38:00:00:0a'' 1) None,
      CommandExecuted 0]"
  by (simp add: worker_iteration_def attempt_loop.simps raising_world_def run_simps)

lemma flaky_run:
  "trace (worker_iteration flaky_world abc_mesh on_cmd) =
       [LinkConnect (Link ''a4:c1:38:00:00:0a'' 1), UpdateListeners, SetStatusCallback (Link ''a4:c1:38:00:00:0a'' 1),
        LinkDispatch (Link ''a4:c1:38:00:00:0a'' 1) ''on'' (Kwargs [(''dest'', 1)]), LinkDisconnect (Link ''a4:c1:38:00:00:0a'' 1) None, UpdateListeners,
        LinkConnect (Link ''a4:c1:38:00:00:0a'' 1), UpdateListeners, SetStatusCallback (Link ''a4:c1:38:00:00:0a'' 1),
        LinkDispatch (Link ''a4:c1:38:00:00:0a'' 1) ''on'' (Kwargs [(''dest'', 1)]), LinkDisconnect (Link ''a4:c1:38:00:00:0a'' 1) None, UpdateListeners,
        LinkConnect (Link ''a4:c1:38:00:00:0a'' 1), UpdateListeners, SetStatusCallback (Link ''a4:c1:38:00:00:0a'' 1),
        LinkDispatch (Link ''a4:c1:38:00:00:0a'' 1) ''on'' (Kwargs [(''dest'', 1)]), CommandExecuted 0]"
  by (simp add: worker_iteration_def attempt_loop.simps call_command_def async_connect_device_def
      is_connected_def devices_abc_mesh link_connect_def link_disconnect_def link_dispatch_def
      deliver_reports_def flaky_world_def quiet_world_def advance_def log_def now_def
      async_update_mesh_state_def disconnect_current_device_def disconnect_under_def on_cmd_def
      abc_mesh_def register_device_def empty_mesh_def Let_def)

lemma mute_run:
  "trace (worker_iteration mute_world abc_mesh on_cmd) =
       [LinkConnect (Link ''a4:c1:38:00:00:0a'' 1), UpdateListeners, SetStatusCallback (Link ''a4:c1:38:00:00:0a'' 1),
        LinkDispatch (Link ''a4:c1:38:00:00:0a'' 1) ''on'' (Kwargs [(''dest'', 1)]), LinkDisconnect (Link ''a4:c1:38:00:00:0a'' 1) None, UpdateListeners,
        LinkConnect (Link ''a4:c1:38:00:00:0a'' 1), UpdateListeners, SetStatusCallback (Link ''a4:c1:38:00:00:0a'' 1),
        LinkDispatch (Link ''a4:c1:38:00:00:0a'' 1) ''on'' (Kwargs [(''dest'', 1)]), LinkDisconnect (Link ''a4:c1:38:00:00:0a'' 1) None, UpdateListeners,
        LinkConnect (Link ''a4:c1:38:00:00:0a'' 1), UpdateListeners, SetStatusCallback (Link ''a4:c1:38:00:00:0a'' 1),
        LinkDispatch (Link ''a4:c1:38:00:00:0a'' 1) ''on'' (Kwargs [(''dest'', 1)]), LinkDisconnect (Link ''a4:c1:38:00:00:0a'' 1) None, UpdateListeners,
        LinkConnect (Link ''a4:c1:38:00:00:0a'' 1), UpdateListeners, SetStatusCallback (Link ''a4:c1:38:00:00:0a'' 1),
        LinkDispatch (Link ''a4:c1:38:00:00:0a'' 1) ''on'' (Kwargs [(''dest'', 1)]), LinkDisconnect (Link ''a4:c1:38:00:00:0a'' 1) None, UpdateListeners, CommandExecuted 0]"
  by (simp add: worker_iteration_def attempt_loop.simps call_command_def async_connect_device_def
      is_connected_def devices_abc_mesh link_connect_def link_disconnect_def link_dispatch_def
      deliver_reports_def mute_world_def quiet_world_def advance_def log_def now_def
      async_update_mesh_state_def disconnect_current_device_def disconnect_under_def on_cmd_def
      abc_mesh_def register_device_def empty_mesh_def Let_def)


lemma ref_mesh_status_callback:
  "connected_bluetooth_device (mesh_status_callback w s st) = connected_bluetooth_device s"
  by (simp add: mesh_status_callback_def log_def split: status.splits option.splits)

lemma ref_foldl_callback:
  "connected_bluetooth_device (foldl (mesh_status_callback w) s sts) = connected_bluetooth_device s"
  by (induction sts arbitrary: s) (simp_all add: ref_mesh_status_callback)

lemma ref_link_dispatch:
  "connected_bluetooth_device (snd (link_dispatch w s l c)) = connected_bluetooth_device s"
  by (simp add: link_dispatch_def advance_def deliver_reports_def ref_foldl_callback log_def)

lemma call_command_connected:
  assumes "async_connect_device w s = (None, s1)"
    and "connected_bluetooth_device s1 = Some device"
    and "link_is_connected w (tick s1) device"
  shows "call_command w s c =
     (if dispatch_result w (tick s1) device = DispatchRaises
         \<or> (dispatch_result w (tick s1) device = NoResult \<and> \<not> allow_to_fail c)
      then (Inr (allow_to_fail c), disconnect_current_device w (snd (link_dispatch w s1 device c)))
      else (Inr True, snd (link_dispatch w s1 device c)))"
proof -
  obtain s2 where ld: "link_dispatch w s1 device c = (dispatch_result w (tick s1) device, s2)"
    by (simp add: link_dispatch_def)
  show ?thesis
    using assms ld
    by (cases "dispatch_result w (tick s1) device") (simp_all add: call_command_def Let_def)
qed

lemma call_command_not_connected:
  assumes "async_connect_device w s = (None, s1)" and "\<not> is_connected w s1"
  shows "call_command w s c = (Inr False, s1)"
  using assms by (auto simp: call_command_def is_connected_def split: option.splits)

lemma forced_disconnect:
  assumes "connected_bluetooth_device s1 = Some device"
  shows "connected_bluetooth_device (disconnect_current_device w (snd (link_dispatch w s1 device c))) = None
       \<and> trace (disconnect_current_device w (snd (link_dispatch w s1 device c)))
           = trace (snd (link_dispatch w s1 device c)) @ [LinkDisconnect device None, UpdateListeners]"
proof -
  have "connected_bluetooth_device (snd (link_dispatch w s1 device c)) = Some device"
    using assms by (simp add: ref_link_dispatch)
  then show ?thesis by (simp add: disconnect_current_device_Some)
qed

text \<open>
  C1. For a queue item with a completion callback, the worker's loop body extends the
  trace by events that hold no completion callback, followed by the item's completion
  callback as the last event: once, and before the next item is taken, whatever the
  attempts did (success, retries used up, an exception out of the attempt loop). So a
  worker that runs through a list of queued items, the shutdown flag not set, makes the
  completion callbacks of exactly these items, once each, in the order of the queue.
\<close>

theorem completion_callback_once:
  "(cb c = Some k \<longrightarrow>
      (\<exists>evs. trace (worker_iteration w s c) = trace s @ evs @ [CommandExecuted k]
          \<and> (\<forall>e \<in> set evs. \<not> is_done e)))
   \<and> (\<not> shutdown s \<and> map cb cs = map Some ks \<longrightarrow>
        filter is_done (trace (run_worker w s cs))
          = filter is_done (trace s) @ map CommandExecuted ks)"
  using worker_iteration_trace [of c k w s] run_worker_done [of s cs ks w] by blast

theorem completion_callback_once_witness:
  "cb on_cmd = Some 0 \<and> \<not> shutdown abc_mesh \<and> map cb [on_cmd, off_cmd] = map Some [0, 1]
   \<and> (\<exists>evs. trace (worker_iteration raising_world abc_mesh on_cmd)
                = trace abc_mesh @ evs @ [CommandExecuted 0]
          \<and> (\<forall>e \<in> set evs. \<not> is_done e))
   \<and> filter is_done (trace (run_worker raising_world abc_mesh [on_cmd, off_cmd]))
        = [CommandExecuted 0, CommandExecuted 1]
   \<and> trace (worker_iteration raising_world abc_mesh on_cmd) =
       [LinkConnect (Link ''a4:c1:38:00:00:0a'' 1), LinkDisconnect (Link ''a4:c1:38:00:00:0a'' 1) None,
        CommandExecuted 0]"
proof -
  have h1: "cb on_cmd = Some 0" by (simp add: on_cmd_def)
  have h2: "\<not> shutdown abc_mesh" by (simp add: abc_mesh_def register_device_def empty_mesh_def)
  have h3: "map cb [on_cmd, off_cmd] = map Some [0, 1]" by (simp add: on_cmd_def off_cmd_def)
  have t: "trace abc_mesh = []"
    by (simp add: abc_mesh_def register_device_def empty_mesh_def)
  note i = completion_callback_once [of on_cmd 0 raising_world abc_mesh "[on_cmd, off_cmd]" "[0, 1]"]
  from i h1 have a: "\<exists>evs. trace (worker_iteration raising_world abc_mesh on_cmd)
                = trace abc_mesh @ evs @ [CommandExecuted 0]
          \<and> (\<forall>e \<in> set evs. \<not> is_done e)"
    by blast
  from i h2 h3 t have b: "filter is_done (trace (run_worker raising_world abc_mesh [on_cmd, off_cmd]))
        = [CommandExecuted 0, CommandExecuted 1]"
    by simp
  from h1 h2 h3 a b raising_run show ?thesis by blast
qed

text \<open>
  C2, as the code has it. The loop body makes at most four dispatches for an item: the
  first attempt and up to three retries. When the first two attempts report failure and
  the third reports success the attempt loop ends after exactly these three; when four
  attempts in a row report failure it ends after the fourth. An attempt of a command that
  may not fail, with a link connected, whose dispatch raises or returns nothing reports
  failure after a forced disconnect: no link is owned and the trace ends with the
  disconnect call.
\<close>

theorem attempts_bounded:
  "length (filter is_dispatch (trace (worker_iteration w s c)))
      \<le> length (filter is_dispatch (trace s)) + 4
   \<and> (call_command w s c = (Inr False, s1) \<and> call_command w s1 c = (Inr False, s2)
        \<and> call_command w s2 c = (Inr True, s3) \<longrightarrow> attempt_loop w s c 0 = (None, s3))
   \<and> (call_command w s c = (Inr False, s1) \<and> call_command w s1 c = (Inr False, s2)
        \<and> call_command w s2 c = (Inr False, s3) \<and> call_command w s3 c = (Inr False, s4)
        \<longrightarrow> attempt_loop w s c 0 = (None, s4))
   \<and> (\<not> allow_to_fail c \<and> async_connect_device w s = (None, s0)
        \<and> connected_bluetooth_device s0 = Some device \<and> link_is_connected w (tick s0) device
        \<and> dispatch_result w (tick s0) device \<noteq> Result \<longrightarrow>
          (\<exists>s'. call_command w s c = (Inr False, s')
             \<and> connected_bluetooth_device s' = None
             \<and> trace s' = trace (snd (link_dispatch w s0 device c))
                            @ [LinkDisconnect device None, UpdateListeners]))"
proof (intro conjI impI)
  obtain s' where b: "grows 4 s s'" and
    w: "worker_iteration w s c = (case cb c of Some k \<Rightarrow> log (CommandExecuted k) s' | None \<Rightarrow> s')"
    using grows_worker_body [of s w c] by (simp add: worker_iteration_def Let_def)
  from b obtain evs where "trace s' = trace s @ evs" "length (filter is_dispatch evs) \<le> 4"
    by (auto simp: grows_def)
  then show "length (filter is_dispatch (trace (worker_iteration w s c)))
      \<le> length (filter is_dispatch (trace s)) + 4"
    using w by (cases "cb c") (simp_all add: log_def)
next
  assume "call_command w s c = (Inr False, s1) \<and> call_command w s1 c = (Inr False, s2)
        \<and> call_command w s2 c = (Inr True, s3)"
  then show "attempt_loop w s c 0 = (None, s3)"
    by (simp add: attempt_loop.simps [of w s] attempt_loop.simps [of w s1] attempt_loop.simps [of w s2])
next
  assume "call_command w s c = (Inr False, s1) \<and> call_command w s1 c = (Inr False, s2)
        \<and> call_command w s2 c = (Inr False, s3) \<and> call_command w s3 c = (Inr False, s4)"
  then show "attempt_loop w s c 0 = (None, s4)"
    by (simp add: attempt_loop.simps [of w s] attempt_loop.simps [of w s1]
        attempt_loop.simps [of w s2] attempt_loop.simps [of w s3])
next
  assume h: "\<not> allow_to_fail c \<and> async_connect_device w s = (None, s0)
        \<and> connected_bluetooth_device s0 = Some device \<and> link_is_connected w (tick s0) device
        \<and> dispatch_result w (tick s0) device \<noteq> Result"
  then have "call_command w s c = (Inr False, disconnect_current_device w (snd (link_dispatch w s0 device c)))"
    using call_command_connected [of w s s0 device c]
    by (cases "dispatch_result w (tick s0) device") simp_all
  with forced_disconnect [of s0 device w c] h
  show "\<exists>s'. call_command w s c = (Inr False, s')
             \<and> connected_bluetooth_device s' = None
             \<and> trace s' = trace (snd (link_dispatch w s0 device c))
                            @ [LinkDisconnect device None, UpdateListeners]"
    by simp
qed

theorem attempts_bounded_witness:
  "call_command flaky_world abc_mesh on_cmd = (Inr False, flaky1)
   \<and> call_command flaky_world flaky1 on_cmd = (Inr False, flaky2)
   \<and> call_command flaky_world flaky2 on_cmd = (Inr True, flaky3)
   \<and> attempt_loop flaky_world abc_mesh on_cmd 0 = (None, flaky3)
   \<and> call_command mute_world mute3 on_cmd = (Inr False, mute4)
   \<and> attempt_loop mute_world abc_mesh on_cmd 0 = (None, mute4)
   \<and> connected_bluetooth_device mute1 = None
   \<and> length (filter is_dispatch (trace (worker_iteration flaky_world abc_mesh on_cmd))) = 3
   \<and> length (filter is_dispatch (trace (worker_iteration mute_world abc_mesh on_cmd))) \<le> 4"
proof -
  note f = attempts_bounded [of flaky_world abc_mesh on_cmd flaky1 flaky2 flaky3]
  note m = attempts_bounded [of mute_world abc_mesh on_cmd mute1 mute2 mute3 mute4 mute0
      "Link ''a4:c1:38:00:00:0a'' 1"]
  have t: "trace abc_mesh = []"
    by (simp add: abc_mesh_def register_device_def empty_mesh_def)
  from f flaky_calls have a: "attempt_loop flaky_world abc_mesh on_cmd 0 = (None, flaky3)"
    by blast
  from m mute_calls have b: "attempt_loop mute_world abc_mesh on_cmd 0 = (None, mute4)"
    by blast
  from m mute_connect mute_calls(1) have c: "connected_bluetooth_device mute1 = None"
    by auto
  from m t have d: "length (filter is_dispatch (trace (worker_iteration mute_world abc_mesh on_cmd))) \<le> 4"
    by simp
  have e: "length (filter is_dispatch (trace (worker_iteration flaky_world abc_mesh on_cmd))) = 3"
    by (simp add: flaky_run)
  from flaky_calls mute_calls(4) a b c d e show ?thesis by blast
qed

theorem attempts_bounded_counterexample:
  "length (filter is_dispatch (trace (worker_iteration mute_world abc_mesh on_cmd))) = 4"
  by (simp add: mute_run)

text \<open>
  C9, as the code has it. For a command with \<open>allow_to_fail\<close> set, an attempt that has a
  connected link after the connect routine reports success, and the attempt loop ends
  after this one attempt; the state is the one after the dispatch when the dispatch
  returned (a result or nothing), and the one after a forced disconnect when the dispatch
  raised. When the link is not connected after the connect routine the attempt reports
  failure before any dispatch.
\<close>

theorem allow_to_fail_dispatch:
  "allow_to_fail c \<longrightarrow>
     (async_connect_device w s = (None, s1) \<and> connected_bluetooth_device s1 = Some device
        \<and> link_is_connected w (tick s1) device \<longrightarrow>
          call_command w s c =
            (Inr True,
             if dispatch_result w (tick s1) device = DispatchRaises
             then disconnect_current_device w (snd (link_dispatch w s1 device c))
             else snd (link_dispatch w s1 device c))
          \<and> attempt_loop w s c 0 = (None, snd (call_command w s c)))
   \<and> (async_connect_device w s = (None, s1) \<and> \<not> is_connected w s1 \<longrightarrow>
          call_command w s c = (Inr False, s1))"
proof (intro impI conjI)
  assume a: "allow_to_fail c"
  assume h: "async_connect_device w s = (None, s1) \<and> connected_bluetooth_device s1 = Some device
        \<and> link_is_connected w (tick s1) device"
  show cc: "call_command w s c =
            (Inr True,
             if dispatch_result w (tick s1) device = DispatchRaises
             then disconnect_current_device w (snd (link_dispatch w s1 device c))
             else snd (link_dispatch w s1 device c))"
    using a h call_command_connected [of w s s1 device c] by simp
  show "attempt_loop w s c 0 = (None, snd (call_command w s c))"
    by (subst attempt_loop.simps) (simp add: cc)
next
  assume "async_connect_device w s = (None, s1) \<and> \<not> is_connected w s1"
  then show "call_command w s c = (Inr False, s1)"
    by (simp add: call_command_not_connected)
qed


lemma status_connect:
  "allow_to_fail status_cmd"
  "async_connect_device mute_world abc_mesh = (None, mute0)"
  "async_connect_device broken_world abc_mesh = (None, broken0)"
  "async_connect_device quiet_world abc_mesh = (None, quiet0)"
  "connected_bluetooth_device broken0 = Some (Link ''a4:c1:38:00:00:0a'' 1)"
  "link_is_connected broken_world (tick broken0) (Link ''a4:c1:38:00:00:0a'' 1)"
  "dispatch_result broken_world (tick broken0) (Link ''a4:c1:38:00:00:0a'' 1) = DispatchRaises"
  "dispatch_result mute_world (tick mute0) (Link ''a4:c1:38:00:00:0a'' 1) = NoResult"
  "\<not> is_connected quiet_world quiet0"
  by (simp_all add: mute0_def broken0_def quiet0_def mute_world_def broken_world_def
      status_cmd_def run_simps)

theorem allow_to_fail_dispatch_witness:
  "allow_to_fail status_cmd
   \<and> call_command mute_world abc_mesh status_cmd
       = (Inr True, snd (link_dispatch mute_world mute0 (Link ''a4:c1:38:00:00:0a'' 1) status_cmd))
   \<and> call_command broken_world abc_mesh status_cmd
       = (Inr True, disconnect_current_device broken_world
            (snd (link_dispatch broken_world broken0 (Link ''a4:c1:38:00:00:0a'' 1) status_cmd)))
   \<and> call_command quiet_world abc_mesh status_cmd = (Inr False, quiet0)"
proof -
  note m = allow_to_fail_dispatch [of status_cmd mute_world abc_mesh mute0 "Link ''a4:c1:38:00:00:0a'' 1"]
  note b = allow_to_fail_dispatch [of status_cmd broken_world abc_mesh broken0 "Link ''a4:c1:38:00:00:0a'' 1"]
  note q = allow_to_fail_dispatch [of status_cmd quiet_world abc_mesh quiet0]
  from m status_connect(1,2,8) mute_connect(2,3)
  have a1: "call_command mute_world abc_mesh status_cmd
       = (Inr True, snd (link_dispatch mute_world mute0 (Link ''a4:c1:38:00:00:0a'' 1) status_cmd))"
    by simp
  from b status_connect(1,3,5,6,7)
  have a2: "call_command broken_world abc_mesh status_cmd
       = (Inr True, disconnect_current_device broken_world
            (snd (link_dispatch broken_world broken0 (Link ''a4:c1:38:00:00:0a'' 1) status_cmd)))"
    by simp
  from q status_connect(1,4,9)
  have a3: "call_command quiet_world abc_mesh status_cmd = (Inr False, quiet0)"
    by blast
  from status_connect(1) a1 a2 a3 show ?thesis by blast
qed

text \<open>With no node reachable an attempt of such a command reports failure, and the worker
  runs the connect routine four times for it.\<close>

theorem allow_to_fail_dispatch_counterexample:
  "allow_to_fail status_cmd
   \<and> fst (call_command quiet_world abc_mesh status_cmd) = Inr False
   \<and> length (filter (\<lambda>e. e = LinkConnect (Link ''a4:c1:38:00:00:0a'' 1))
        (trace (worker_iteration quiet_world abc_mesh status_cmd))) = 4"
  by (simp add: worker_iteration_def attempt_loop.simps status_cmd_def run_simps)

section \<open>Properties of the health check and of issuing commands\<close>

text \<open>
  C7. When the worker thread is not alive, putting a command on the queue raises
  \<open>UpdateFailed\<close> and leaves the state as it was, the queue included; so do the six
  commands of the public interface, which all go through it, and so does the health
  check, whose first step is the same test.
\<close>

theorem dead_worker_raises:
  "\<not> command_tread_alive s \<longrightarrow>
     async_add_command_to_queue w s cmd ps allow = (Raises (UpdateFailed ''Command tread died!''), s)
   \<and> async_on w s i = (Raises (UpdateFailed ''Command tread died!''), s)
   \<and> async_off w s i = (Raises (UpdateFailed ''Command tread died!''), s)
   \<and> async_set_color w s i r g b = (Raises (UpdateFailed ''Command tread died!''), s)
   \<and> async_set_color_brightness w s i v = (Raises (UpdateFailed ''Command tread died!''), s)
   \<and> async_set_white_temperature w s i v = (Raises (UpdateFailed ''Command tread died!''), s)
   \<and> async_set_white_brightness w s i v = (Raises (UpdateFailed ''Command tread died!''), s)
   \<and> async_update_data w s = (Some (UpdateFailed ''Command tread died!''), s)"
  by (simp add: async_add_command_to_queue_def async_on_def async_off_def async_set_color_def
      async_set_color_brightness_def async_set_white_temperature_def
      async_set_white_brightness_def async_update_data_def)

theorem dead_worker_raises_witness:
  "\<not> command_tread_alive dead_mesh
   \<and> async_on mute_world dead_mesh 1 = (Raises (UpdateFailed ''Command tread died!''), dead_mesh)
   \<and> queue (snd (async_on mute_world dead_mesh 1)) = []
   \<and> async_update_data mute_world dead_mesh = (Some (UpdateFailed ''Command tread died!''), dead_mesh)"
proof -
  have h: "\<not> command_tread_alive dead_mesh" by (simp add: dead_mesh_def)
  have q: "queue dead_mesh = []"
    by (simp add: dead_mesh_def abc_mesh_def register_device_def empty_mesh_def)
  from dead_worker_raises [of dead_mesh mute_world "''on''" "Kwargs []" False 1 0 0 0 0] h q
  show ?thesis by simp
qed

lemma disable_all_devices:
  "fst (disable_all ds) = map (\<lambda>(i, d). (i, d\<lparr>last_update := None\<rparr>)) ds"
  by (induction ds rule: disable_all.induct) (simp_all add: case_prod_unfold split: option.splits)

lemma disable_all_events:
  "snd (disable_all ds) =
     map (\<lambda>(i, d). Callback (callback d) StateNone) (filter (\<lambda>(i, d). last_update d \<noteq> None) ds)"
  by (induction ds rule: disable_all.induct) (simp_all add: case_prod_unfold split: option.splits)

lemma lus_worker_iteration: "last_update_success (worker_iteration w s c) = last_update_success s"
  using grows_worker_body [of s w c]
  by (auto simp: worker_iteration_def grows_def log_def Let_def split: option.splits)

lemma lus_run_worker: "last_update_success (run_worker w s cs) = last_update_success s"
  by (induction cs arbitrary: s) (simp_all add: Let_def lus_worker_iteration)

lemma lus_add_command:
  "last_update_success (snd (async_add_command_to_queue w s cmd ps allow)) = last_update_success s"
  by (simp add: async_add_command_to_queue_def process_command_queue_def Let_def lus_run_worker)

lemma lus_timed_command:
  "last_update_success (snd (timed_command w s cmd ps allow)) = last_update_success s"
  using lus_add_command [of w s cmd ps allow]
  by (cases "async_add_command_to_queue w s cmd ps allow")
     (auto simp: timed_command_def advance_def split: outcome.splits)

lemma lus_get_devices_rssi:
  "last_update_success (snd (async_get_devices_rssi w s)) = last_update_success s"
  by (auto simp: async_get_devices_rssi_def advance_def async_update_mesh_state_def log_def Let_def
      split: scan_outcome.splits prod.splits option.splits)

lemma lus_disconnect:
  "last_update_success (disconnect_current_device w s) = last_update_success s"
  using grows_disconnect_current_device [of s w] by (auto simp: grows_def)

lemma lus_forced_reconnect:
  "last_update_success (snd (forced_reconnect w s)) = last_update_success s"
  by (simp add: forced_reconnect_def disconnect_under_def link_disconnect_def
      async_update_mesh_state_def log_def advance_def
      split: option.splits prod.splits call_outcome.splits)

lemma lus_request_status:
  "last_update_success (snd (request_status w s)) = last_update_success s"
proof -
  obtain e s1 where f: "forced_reconnect w s = (e, s1)" by (cases "forced_reconnect w s")
  with lus_forced_reconnect [of w s] have l: "last_update_success s1 = last_update_success s"
    by simp
  show ?thesis
    using f l
    by (cases e) (simp_all add: request_status_def Let_def lus_timed_command lus_get_devices_rssi)
qed

text \<open>
  C3. A health check whose broadcast status request ends with no device connected reports
  \<open>UpdateFailed\<close>. The flag \<open>last_update_success\<close> it reads there is the one the cycle
  started with. When the flag is set (the previous cycle succeeded) the state is the one
  after the request: no node is touched. When it is not set, first every node with a
  \<open>last_update\<close> gets the callback with \<open>{'state': None}\<close>, in registry order, and has
  its \<open>last_update\<close> cleared; a node without a \<open>last_update\<close> gets no callback and its
  entry is the same (clearing an absent \<open>last_update\<close> changes nothing).
\<close>

theorem no_connection_escalation:
  "command_tread_alive s \<and> request_status w s = (None, s1) \<and> \<not> is_connected w s1 \<longrightarrow>
     fst (async_update_data w s) = Some (UpdateFailed ''No device connected'')
     \<and> last_update_success s1 = last_update_success s
     \<and> (last_update_success s \<longrightarrow> snd (async_update_data w s) = s1)
     \<and> (\<not> last_update_success s \<longrightarrow>
          snd (async_update_data w s) =
            s1\<lparr>devices := map (\<lambda>(i, d). (i, d\<lparr>last_update := None\<rparr>)) (devices s1),
               trace := trace s1 @ map (\<lambda>(i, d). Callback (callback d) StateNone)
                                       (filter (\<lambda>(i, d). last_update d \<noteq> None) (devices s1))\<rparr>)"
proof (intro impI)
  assume h: "command_tread_alive s \<and> request_status w s = (None, s1) \<and> \<not> is_connected w s1"
  have l: "last_update_success s1 = last_update_success s"
    using h lus_request_status [of w s] by simp
  show "fst (async_update_data w s) = Some (UpdateFailed ''No device connected'')
     \<and> last_update_success s1 = last_update_success s
     \<and> (last_update_success s \<longrightarrow> snd (async_update_data w s) = s1)
     \<and> (\<not> last_update_success s \<longrightarrow>
          snd (async_update_data w s) =
            s1\<lparr>devices := map (\<lambda>(i, d). (i, d\<lparr>last_update := None\<rparr>)) (devices s1),
               trace := trace s1 @ map (\<lambda>(i, d). Callback (callback d) StateNone)
                                       (filter (\<lambda>(i, d). last_update d \<noteq> None) (devices s1))\<rparr>)"
    using h l
    by (simp add: async_update_data_def update_status_of_all_devices_to_disabled_def
        disable_all_devices disable_all_events)
qed


lemmas cycle_simps = request_status_def timed_command_def async_add_command_to_queue_def
  process_command_queue_def worker_iteration_def attempt_loop.simps async_update_data_def
  call_command_def async_connect_device_def
  is_connected_def link_connect_def link_disconnect_def link_dispatch_def
  deliver_reports_def advance_def log_def now_def sleep_def
  async_update_mesh_state_def disconnect_current_device_def disconnect_under_def
  forced_reconnect_def
  check_device_def refresh_device_def disable_if_stale_def mesh_status_callback_def
  abc_mesh_def register_device_def empty_mesh_def Let_def

lemma seen_request:
  "request_status quiet_world seen_mesh = (None, seen1)"
  "\<not> is_connected quiet_world seen1"
  "command_tread_alive seen_mesh"
  "\<not> last_update_success seen_mesh"
  "map (\<lambda>(i, d). (i, last_update d)) (devices seen1) = [(1, Some 900), (2, None), (3, Some 950)]"
  by (simp_all add: seen1_def seen_mesh_def quiet_world_def cycle_simps)

lemma first_request:
  "request_status quiet_world first_mesh = (None, first1)"
  "\<not> is_connected quiet_world first1"
  "command_tread_alive first_mesh"
  "last_update_success first_mesh"
  "map (\<lambda>(i, d). (i, last_update d)) (devices first1) = [(1, Some 900), (2, None), (3, Some 950)]"
  by (simp_all add: first1_def first_mesh_def seen_mesh_def quiet_world_def cycle_simps)


lemma seen_devices:
  "devices seen1 = devices seen_mesh"
  "devices first1 = devices seen_mesh"
  by (simp_all add: seen1_def first1_def first_mesh_def seen_mesh_def quiet_world_def cycle_simps)

theorem no_connection_escalation_witness:
  "command_tread_alive seen_mesh \<and> request_status quiet_world seen_mesh = (None, seen1)
   \<and> \<not> is_connected quiet_world seen1 \<and> \<not> last_update_success seen_mesh
   \<and> fst (async_update_data quiet_world seen_mesh) = Some (UpdateFailed ''No device connected'')
   \<and> map (\<lambda>(i, d). (i, last_update d)) (devices (snd (async_update_data quiet_world seen_mesh)))
        = [(1, None), (2, None), (3, None)]
   \<and> trace (snd (async_update_data quiet_world seen_mesh))
        = trace seen1 @ [Callback 1 StateNone, Callback 3 StateNone]
   \<and> last_update_success first_mesh
   \<and> snd (async_update_data quiet_world first_mesh) = first1
   \<and> map (\<lambda>(i, d). (i, last_update d)) (devices first1) = [(1, Some 900), (2, None), (3, Some 950)]"
proof -
  note a = no_connection_escalation [of seen_mesh quiet_world seen1]
  note b = no_connection_escalation [of first_mesh quiet_world first1]
  from a seen_request(1-4)
  have a1: "fst (async_update_data quiet_world seen_mesh) = Some (UpdateFailed ''No device connected'')"
    and a2: "snd (async_update_data quiet_world seen_mesh) =
            seen1\<lparr>devices := map (\<lambda>(i, d). (i, d\<lparr>last_update := None\<rparr>)) (devices seen1),
               trace := trace seen1 @ map (\<lambda>(i, d). Callback (callback d) StateNone)
                                       (filter (\<lambda>(i, d). last_update d \<noteq> None) (devices seen1))\<rparr>"
    by blast+
  from b first_request(1-4) have b1: "snd (async_update_data quiet_world first_mesh) = first1"
    by blast
  have a3: "map (\<lambda>(i, d). (i, last_update d)) (devices (snd (async_update_data quiet_world seen_mesh)))
        = [(1, None), (2, None), (3, None)]"
    by (simp add: a2 seen_devices) (simp add: seen_mesh_def)
  have a4: "trace (snd (async_update_data quiet_world seen_mesh))
        = trace seen1 @ [Callback 1 StateNone, Callback 3 StateNone]"
    by (simp add: a2 seen_devices) (simp add: seen_mesh_def)
  from seen_request(1-4) first_request(4,5) a1 a3 a4 b1 show ?thesis by blast
qed

section \<open>Properties of the staleness pass\<close>





lemma steady_update_mesh_state: "steady i s (async_update_mesh_state w s)"
  by (simp add: steady_def async_update_mesh_state_def log_def)











































end
